theory Spec2Isabelle
  imports Main "HOL-Library.Word" "HOL-Library.Multiset"
begin

section \<open>Data model\<close>

text \<open>
  The metrics package of cert-manager: a \<open>Metrics\<close> object owning a private prometheus
  registry and a set of collectors, the certificate-request update paths, and the HTTP
  server that exposes the registry.

  Values of gauges and counters are \<open>float64\<close> in the source. Every value the modelled
  operations produce is an integer obtained by adding or subtracting \<open>1\<close>, and \<open>float64\<close>
  is exact on integers of magnitude up to \<open>2 ^ 53\<close>; the model therefore uses \<open>int\<close> and
  agrees with the source on every run of fewer than \<open>2 ^ 53\<close> updates of one label tuple.
\<close>

subsection \<open>Certificate requests (\<open>cmapi.CertificateRequest\<close>)\<close>

record ObjectReference =
  Ref_Name :: string
  Ref_Kind :: string
  Ref_Group :: string

record CertificateRequestSpec =
  IssuerRef :: ObjectReference

record CertificateRequest =
  Name :: string
  Namespace :: string
  Spec :: CertificateRequestSpec

subsection \<open>Collectors and their descriptors\<close>

datatype Kind = CounterVec | GaugeVec | SummaryVec | CounterFunc | GaugeFunc

text \<open>
  The options and label names a collector is built from (\<open>prometheus.CounterOpts\<close>,
  \<open>GaugeOpts\<close>, \<open>SummaryOpts\<close> and the label-name slice). The quantile objectives of
  the summaries are not part of a descriptor and are left out.
\<close>

record Collector =
  kind :: Kind
  Opts_Namespace :: string
  Opts_Subsystem :: string
  Opts_Name :: string
  Opts_Help :: string
  labelNames :: "string list"

text \<open>\<open>prometheus.BuildFQName\<close>: the non-empty parts joined by an underscore.\<close>

definition BuildFQName :: "string \<Rightarrow> string \<Rightarrow> string \<Rightarrow> string" where
  "BuildFQName ns subsystem nm =
     (if nm = [] then []
      else if ns \<noteq> [] \<and> subsystem \<noteq> [] then ns @ ''_'' @ subsystem @ ''_'' @ nm
      else if ns \<noteq> [] then ns @ ''_'' @ nm
      else if subsystem \<noteq> [] then subsystem @ ''_'' @ nm
      else nm)"

text \<open>
  The descriptor of a collector (\<open>prometheus.Desc\<close>; none of the collectors has constant
  labels). Every collector of the package describes itself by exactly one descriptor,
  which is what \<open>metric.Describe(descChan)\<close> followed by \<open><-descChan\<close> reads.
\<close>

record Desc =
  fqName :: string
  desc_help :: string
  variableLabels :: "string list"

definition Describe :: "Collector \<Rightarrow> Desc" where
  "Describe c =
     \<lparr>fqName = BuildFQName (Opts_Namespace c) (Opts_Subsystem c) (Opts_Name c),
      desc_help = Opts_Help c,
      variableLabels = labelNames c\<rparr>"

text \<open>
  The library derives two hashes from a descriptor. Its identifier hashes the
  fully-qualified name and the values of the constant labels, so without constant labels
  it stands for the name alone; the model uses \<open>fqName\<close> for it. Its dimension hash covers
  the help string and the label names; the model uses the pair itself.
\<close>

type_synonym DimHash = "string \<times> string list"

definition dimHash :: "Desc \<Rightarrow> DimHash" where
  "dimHash d = (desc_help d, variableLabels d)"

subsection \<open>Metric vectors\<close>

text \<open>
  A vector maps a label-value tuple (the values in the order of the label names) to the
  value of its child metric. \<open>WithLabelValues\<close> and \<open>With\<close> create the child at \<open>0\<close>
  when the tuple is new; \<open>Inc\<close> and \<open>Dec\<close> add and subtract one; \<open>Reset\<close> deletes
  every child. Both lookups panic on a tuple of the wrong length or on a value that is
  not valid UTF-8; every call of the package passes five values, and the values are
  names of Kubernetes objects, so that branch is not taken and is not modelled.
\<close>

type_synonym LabelValues = "string list"
type_synonym MetricVec = "LabelValues \<rightharpoonup> int"

definition WithLabelValues :: "LabelValues \<Rightarrow> MetricVec \<Rightarrow> int" where
  "WithLabelValues lvs v = (case v lvs of None \<Rightarrow> 0 | Some x \<Rightarrow> x)"

definition vec_Inc :: "LabelValues \<Rightarrow> MetricVec \<Rightarrow> MetricVec" where
  "vec_Inc lvs v = v(lvs \<mapsto> WithLabelValues lvs v + 1)"

definition vec_Dec :: "LabelValues \<Rightarrow> MetricVec \<Rightarrow> MetricVec" where
  "vec_Dec lvs v = v(lvs \<mapsto> WithLabelValues lvs v - 1)"

definition vec_Reset :: "MetricVec \<Rightarrow> MetricVec" where
  "vec_Reset v = Map.empty"

subsection \<open>Errors and log entries\<close>

datatype error =
    AlreadyRegisteredError Collector Collector
  | InconsistentDescriptorError Desc
  | ListError string

datatype LogValue = StringValue string | DescString Desc

datatype LogEntry =
    Info string "(string \<times> LogValue) list"
  | Error error string "(string \<times> LogValue) list"
  | Println string error

subsection \<open>The clock\<close>

text \<open>
  \<open>clock.Clock\<close> is an interface whose \<open>Now()\<close> reads the time. The model indexes the
  readings by an instant \<open>'i\<close>; a \<open>Time\<close> is represented by what \<open>Unix()\<close> returns for it.
\<close>

record Time =
  Unix :: "64 word"

type_synonym 'i Clock = "'i \<Rightarrow> Time"

fun bit_length :: "nat \<Rightarrow> nat" where
  "bit_length n = (if n = 0 then 0 else Suc (bit_length (n div 2)))"

declare bit_length.simps [simp del]

text \<open>
  The conversion \<open>float64(x)\<close> of an \<open>int64\<close>: the nearest value with a 53-bit
  significand, ties to even. The result is an integer and is represented as one.
\<close>

definition float64 :: "64 word \<Rightarrow> int" where
  "float64 x =
     (let n = sint x; a = nat \<bar>n\<bar>; e = bit_length a - 53
      in if e = 0 then n
         else let q = a div 2 ^ e; r = a mod 2 ^ e; half = 2 ^ (e - 1);
                  q' = (if half < r \<or> (r = half \<and> odd q) then q + 1 else q)
              in sgn n * int (q' * 2 ^ e))"

subsection \<open>The state\<close>

text \<open>
  The fields of \<open>Metrics\<close> that the modelled operations read or write: the sink of
  \<open>m.log\<close>, the registry \<open>m.registry\<close>, the children of the gauge vector
  \<open>m.certificateRequestCount\<close>, and the clock that the closures of
  \<open>m.clockTimeSeconds\<close> and \<open>m.clockTimeSecondsGauge\<close> capture. The registry takes two
  fields: \<open>registry\<close> holds the attached collectors in the order they were attached, and
  \<open>dimHashesByName\<close> the dimension hash the registry remembers for every name it has
  ever attached.
\<close>

record 'i Metrics =
  log :: "LogEntry list"
  registry :: "Collector list"
  dimHashesByName :: "string \<rightharpoonup> DimHash"
  certificateRequestCount :: MetricVec
  clock :: "'i Clock"

text \<open>
  The package-level state next to it: the children of the counter vector
  \<open>currentCertificateRequestCount\<close>, which \<open>promauto\<close> attaches to the default registry
  of the process and not to \<open>m.registry\<close>, and the output of the standard logger.
\<close>

record 'i World = "'i Metrics" +
  currentCertificateRequestCount :: MetricVec
  stdlog :: "LogEntry list"

section \<open>Construction\<close>

definition namespace :: string where
  "namespace = ''certmanager''"

definition clockTimeSeconds_collector :: Collector where
  "clockTimeSeconds_collector =
     \<lparr>kind = CounterFunc, Opts_Namespace = namespace, Opts_Subsystem = [],
      Opts_Name = ''clock_time_seconds'',
      Opts_Help = ''DEPRECATED: use clock_time_seconds_gauge instead. The clock time given in seconds (from 1970/01/01 UTC).'',
      labelNames = []\<rparr>"

definition clockTimeSecondsGauge_collector :: Collector where
  "clockTimeSecondsGauge_collector =
     \<lparr>kind = GaugeFunc, Opts_Namespace = namespace, Opts_Subsystem = [],
      Opts_Name = ''clock_time_seconds_gauge'',
      Opts_Help = ''The clock time given in seconds (from 1970/01/01 UTC).'',
      labelNames = []\<rparr>"

definition certificateExpiryTimeSeconds_collector :: Collector where
  "certificateExpiryTimeSeconds_collector =
     \<lparr>kind = GaugeVec, Opts_Namespace = namespace, Opts_Subsystem = [],
      Opts_Name = ''certificate_expiration_timestamp_seconds'',
      Opts_Help = ''The date after which the certificate expires. Expressed as a Unix Epoch Time.'',
      labelNames = [''name'', ''namespace'', ''issuer_name'', ''issuer_kind'', ''issuer_group'']\<rparr>"

definition certificateRenewalTimeSeconds_collector :: Collector where
  "certificateRenewalTimeSeconds_collector =
     \<lparr>kind = GaugeVec, Opts_Namespace = namespace, Opts_Subsystem = [],
      Opts_Name = ''certificate_renewal_timestamp_seconds'',
      Opts_Help = ''The number of seconds before expiration time the certificate should renew.'',
      labelNames = [''name'', ''namespace'', ''issuer_name'', ''issuer_kind'', ''issuer_group'']\<rparr>"

definition certificateReadyStatus_collector :: Collector where
  "certificateReadyStatus_collector =
     \<lparr>kind = GaugeVec, Opts_Namespace = namespace, Opts_Subsystem = [],
      Opts_Name = ''certificate_ready_status'',
      Opts_Help = ''The ready status of the certificate.'',
      labelNames = [''name'', ''namespace'', ''condition'', ''issuer_name'', ''issuer_kind'',
                    ''issuer_group'']\<rparr>"

definition acmeClientRequestCount_collector :: Collector where
  "acmeClientRequestCount_collector =
     \<lparr>kind = CounterVec, Opts_Namespace = namespace, Opts_Subsystem = ''http'',
      Opts_Name = ''acme_client_request_count'',
      Opts_Help = ''The number of requests made by the ACME client.'',
      labelNames = [''scheme'', ''host'', ''path'', ''method'', ''status'']\<rparr>"

definition acmeClientRequestDurationSeconds_collector :: Collector where
  "acmeClientRequestDurationSeconds_collector =
     \<lparr>kind = SummaryVec, Opts_Namespace = namespace, Opts_Subsystem = ''http'',
      Opts_Name = ''acme_client_request_duration_seconds'',
      Opts_Help = ''The HTTP request latencies in seconds for the ACME client.'',
      labelNames = [''scheme'', ''host'', ''path'', ''method'', ''status'']\<rparr>"

definition venafiClientRequestDurationSeconds_collector :: Collector where
  "venafiClientRequestDurationSeconds_collector =
     \<lparr>kind = SummaryVec, Opts_Namespace = namespace, Opts_Subsystem = ''http'',
      Opts_Name = ''venafi_client_request_duration_seconds'',
      Opts_Help = ''ALPHA: The HTTP request latencies in seconds for the Venafi client. This metric is currently alpha as we would like to understand whether it helps to measure Venafi call latency. Please leave feedback if you have any.'',
      labelNames = [''api_call'']\<rparr>"

definition controllerSyncCallCount_collector :: Collector where
  "controllerSyncCallCount_collector =
     \<lparr>kind = CounterVec, Opts_Namespace = namespace, Opts_Subsystem = [],
      Opts_Name = ''controller_sync_call_count'',
      Opts_Help = ''The number of sync() calls made by a controller.'',
      labelNames = [''controller'']\<rparr>"

definition controllerSyncErrorCount_collector :: Collector where
  "controllerSyncErrorCount_collector =
     \<lparr>kind = CounterVec, Opts_Namespace = namespace, Opts_Subsystem = [],
      Opts_Name = ''controller_sync_error_count'',
      Opts_Help = ''The number of errors encountered during controller sync().'',
      labelNames = [''controller'']\<rparr>"

definition certificateRequestCount_collector :: Collector where
  "certificateRequestCount_collector =
     \<lparr>kind = GaugeVec, Opts_Namespace = [], Opts_Subsystem = [],
      Opts_Name = ''current_certificate_request_count'',
      Opts_Help = ''The current number of certificate requests.'',
      labelNames = [''name'', ''namespace'', ''issuer_name'', ''issuer_kind'', ''issuer_group'']\<rparr>"

text \<open>
  The package-level counter vector of the certificate-request file: the same name, help
  and label names as \<open>certificateRequestCount_collector\<close>, but another collector.
\<close>

definition currentCertificateRequestCount_collector :: Collector where
  "currentCertificateRequestCount_collector =
     \<lparr>kind = CounterVec, Opts_Namespace = [], Opts_Subsystem = [],
      Opts_Name = ''current_certificate_request_count'',
      Opts_Help = ''The current number of certificate requests.'',
      labelNames = [''name'', ''namespace'', ''issuer_name'', ''issuer_kind'', ''issuer_group'']\<rparr>"

text \<open>
  \<open>New\<close> builds a fresh \<open>Metrics\<close>: an empty registry, collectors without children, the
  logger and the clock it is given. The package-level state is not touched.
\<close>

definition New :: "LogEntry list \<Rightarrow> 'i Clock \<Rightarrow> 'i World \<Rightarrow> 'i World" where
  "New lg c w =
     w\<lparr>log := lg, registry := [], dimHashesByName := Map.empty,
       certificateRequestCount := Map.empty, clock := c\<rparr>"

text \<open>The functions behind the two clock metrics, as \<open>New\<close> writes them.\<close>

definition clockTimeSeconds :: "'i World \<Rightarrow> 'i \<Rightarrow> int" where
  "clockTimeSeconds w i = float64 (Unix (clock w i))"

definition clockTimeSecondsGauge :: "'i World \<Rightarrow> 'i \<Rightarrow> int" where
  "clockTimeSecondsGauge w i = float64 (Unix (clock w i))"

section \<open>The registry and the server\<close>

text \<open>
  \<open>prometheus.Registry\<close> is library code and not part of the sources; the model follows
  the library for collectors that describe themselves by one valid descriptor without
  constant labels, which is what every collector of the package is.

  \<open>Unregister\<close> looks the collector up by the identifier of its descriptor, that is by
  its fully-qualified name: it detaches the attached collector of that name and returns
  whether there was one. It leaves \<open>dimHashesByName\<close> as it is.

  \<open>Register\<close> fails when the registry remembers another dimension hash for the name
  (other label names or another help string), also when no collector of that name is
  attached any more; it fails with \<open>AlreadyRegisteredError\<close> when a collector of that
  name is attached; otherwise it attaches the collector and remembers its dimension
  hash. A failed \<open>Register\<close> leaves the registry as it was.
\<close>

definition registry_Unregister :: "Collector \<Rightarrow> Collector list \<Rightarrow> bool \<times> Collector list" where
  "registry_Unregister c r =
     (fqName (Describe c) \<in> set (map (\<lambda>d. fqName (Describe d)) r),
      filter (\<lambda>d. fqName (Describe d) \<noteq> fqName (Describe c)) r)"

definition registry_Register ::
  "Collector \<Rightarrow> Collector list \<Rightarrow> (string \<rightharpoonup> DimHash)
     \<Rightarrow> error + Collector list \<times> (string \<rightharpoonup> DimHash)" where
  "registry_Register c r dims =
     (if (case dims (fqName (Describe c)) of
            None \<Rightarrow> False | Some h \<Rightarrow> h \<noteq> dimHash (Describe c))
      then Inl (InconsistentDescriptorError (Describe c))
      else case find (\<lambda>d. fqName (Describe d) = fqName (Describe c)) r of
             Some existing \<Rightarrow> Inl (AlreadyRegisteredError existing c)
           | None \<Rightarrow> Inr (r @ [c], dims(fqName (Describe c) \<mapsto> dimHash (Describe c))))"

text \<open>
  A list of collectors agrees with the remembered dimension hashes when the registry
  remembers nothing else for any of their names.
\<close>

definition dims_agree :: "Collector list \<Rightarrow> (string \<rightharpoonup> DimHash) \<Rightarrow> bool" where
  "dims_agree ms dims =
     list_all (\<lambda>m. case dims (fqName (Describe m)) of
                      None \<Rightarrow> True | Some h \<Rightarrow> h = dimHash (Describe m)) ms"

definition metricsToRegister :: "Collector list" where
  "metricsToRegister =
     [certificateRequestCount_collector,
      clockTimeSeconds_collector,
      clockTimeSecondsGauge_collector,
      certificateExpiryTimeSeconds_collector,
      certificateRenewalTimeSeconds_collector,
      certificateReadyStatus_collector,
      acmeClientRequestDurationSeconds_collector,
      venafiClientRequestDurationSeconds_collector,
      acmeClientRequestCount_collector,
      controllerSyncCallCount_collector,
      controllerSyncErrorCount_collector]"

text \<open>
  The \<open>for _, metric := range metricsToRegister\<close> loop of \<open>NewServer\<close>. The log
  entries carry the string of the collector's descriptor, \<open>desc.String()\<close>.
\<close>

fun range_metrics :: "Collector list \<Rightarrow> 'i World \<Rightarrow> 'i World" where
  "range_metrics [] w = w"
| "range_metrics (metric # rest) w =
     (case registry_Unregister metric (registry w) of
        (alreadyRegistered, r) \<Rightarrow>
          if \<not> alreadyRegistered then
            (case registry_Register metric r (dimHashesByName w) of
               Inl err \<Rightarrow>
                 range_metrics rest
                   (w\<lparr>log := log w @ [Error err ''Failed to register metric''
                                        [(''metric'', DescString (Describe metric))]],
                      registry := r\<rparr>)
             | Inr (r', dims') \<Rightarrow>
                 range_metrics rest
                   (w\<lparr>log := log w @ [Info ''Registered metric''
                                        [(''name'', DescString (Describe metric))]],
                      registry := r', dimHashesByName := dims'\<rparr>))
          else
            range_metrics rest
              (w\<lparr>log := log w @ [Info ''Metric already registered; skipping''
                                   [(''name'', DescString (Describe metric))]],
                 registry := r\<rparr>))"

type_synonym Duration = "64 word"

definition Second :: Duration where
  "Second = 1000000000"

definition prometheusMetricsServerReadTimeout :: Duration where
  "prometheusMetricsServerReadTimeout = 8 * Second"

definition prometheusMetricsServerWriteTimeout :: Duration where
  "prometheusMetricsServerWriteTimeout = 8 * Second"

definition prometheusMetricsServerMaxHeaderBytes :: int where
  "prometheusMetricsServerMaxHeaderBytes = push_bit 20 1"

record Listener =
  Addr :: string

datatype Handler = HandlerFor_registry

record Server =
  Server_Addr :: string
  ReadTimeout :: Duration
  WriteTimeout :: Duration
  MaxHeaderBytes :: int
  Server_Handler :: "(string \<times> Handler) list"

definition NewServer :: "Listener \<Rightarrow> 'i World \<Rightarrow> Server \<times> 'i World" where
  "NewServer ln w =
     (let w' = range_metrics metricsToRegister w;
          mux = [(''/metrics'', HandlerFor_registry)];
          server = \<lparr>Server_Addr = Addr ln,
                    ReadTimeout = prometheusMetricsServerReadTimeout,
                    WriteTimeout = prometheusMetricsServerWriteTimeout,
                    MaxHeaderBytes = prometheusMetricsServerMaxHeaderBytes,
                    Server_Handler = mux\<rparr>
      in (server, w'))"

text \<open>
  What a scrape of \<open>/metrics\<close> shows for the gauge vector of \<open>Metrics\<close>: its children
  when the collector is attached to \<open>m.registry\<close>, nothing otherwise.
\<close>

definition exposition_certificateRequestCount :: "'i World \<Rightarrow> MetricVec" where
  "exposition_certificateRequestCount w =
     (if certificateRequestCount_collector \<in> set (registry w)
      then certificateRequestCount w else Map.empty)"

section \<open>Update paths\<close>

subsection \<open>Incremental path\<close>

definition IncrementCurrentCertificateRequest ::
  "string \<Rightarrow> string \<Rightarrow> string \<Rightarrow> string \<Rightarrow> string \<Rightarrow> 'i World \<Rightarrow> 'i World" where
  "IncrementCurrentCertificateRequest nm ns issuerName issuerKind issuerGroup w =
     w\<lparr>log := log w @ [Info ''Incrementing certificateRequestCount''
           [(''name'', StringValue nm), (''namespace'', StringValue ns),
            (''issuerName'', StringValue issuerName), (''issuerKind'', StringValue issuerKind),
            (''issuerGroup'', StringValue issuerGroup)]],
       certificateRequestCount :=
         vec_Inc [nm, ns, issuerName, issuerKind, issuerGroup] (certificateRequestCount w)\<rparr>"

definition DecrementCurrentCertificateRequest ::
  "string \<Rightarrow> string \<Rightarrow> string \<Rightarrow> string \<Rightarrow> string \<Rightarrow> 'i World \<Rightarrow> 'i World" where
  "DecrementCurrentCertificateRequest nm ns issuerName issuerKind issuerGroup w =
     w\<lparr>log := log w @ [Info ''Decrementing certificateRequestCount''
           [(''name'', StringValue nm), (''namespace'', StringValue ns),
            (''issuerName'', StringValue issuerName), (''issuerKind'', StringValue issuerKind),
            (''issuerGroup'', StringValue issuerGroup)]],
       certificateRequestCount :=
         vec_Dec [nm, ns, issuerName, issuerKind, issuerGroup] (certificateRequestCount w)\<rparr>"

subsection \<open>Full recomputation\<close>

text \<open>
  The label map built for one record names exactly the five labels of the vector, so
  \<open>With\<close> never panics; its tuple is the five values in the order of the label names.
\<close>

definition labels :: "CertificateRequest \<Rightarrow> LabelValues" where
  "labels cr =
     [Name cr, Namespace cr, Ref_Name (IssuerRef (Spec cr)),
      Ref_Kind (IssuerRef (Spec cr)), Ref_Group (IssuerRef (Spec cr))]"

text \<open>The body of the \<open>for _, cr := range crs\<close> loop, shared by both versions.\<close>

fun range_crs :: "CertificateRequest list \<Rightarrow> MetricVec \<Rightarrow> MetricVec" where
  "range_crs [] v = v"
| "range_crs (cr # crs) v = range_crs crs (vec_Inc (labels cr) v)"

text \<open>The version that resets the vector before it counts.\<close>

definition UpdateCurrentCertificateRequestCount :: "CertificateRequest list \<Rightarrow> 'i World \<Rightarrow> 'i World" where
  "UpdateCurrentCertificateRequestCount crs w =
     w\<lparr>currentCertificateRequestCount :=
         range_crs crs (vec_Reset (currentCertificateRequestCount w))\<rparr>"

text \<open>The older version of the same method: the loop alone, with no reset.\<close>

definition UpdateCurrentCertificateRequestCount_noreset ::
  "CertificateRequest list \<Rightarrow> 'i World \<Rightarrow> 'i World" where
  "UpdateCurrentCertificateRequestCount_noreset crs w =
     w\<lparr>currentCertificateRequestCount := range_crs crs (currentCertificateRequestCount w)\<rparr>"

text \<open>
  The lister \<open>m.client.List\<close> is an external collaborator: the model takes it as a
  function from the context to an error or the items of the list.
\<close>

definition getCurrentCertificateRequests ::
  "('ctx \<Rightarrow> error + CertificateRequest list) \<Rightarrow> 'ctx \<Rightarrow> error + CertificateRequest list" where
  "getCurrentCertificateRequests client ctx =
     (case client ctx of Inl err \<Rightarrow> Inl err | Inr items \<Rightarrow> Inr items)"

definition HandleCertificateRequestEvent ::
  "('ctx \<Rightarrow> error + CertificateRequest list) \<Rightarrow> 'ctx \<Rightarrow> CertificateRequest option \<Rightarrow> 'ev \<Rightarrow> 'i World \<Rightarrow> 'i World" where
  "HandleCertificateRequestEvent client ctx cr event w =
     (case getCurrentCertificateRequests client ctx of
        Inl err \<Rightarrow> w\<lparr>log := log w @ [Error err ''Error fetching CertificateRequests'' []]\<rparr>
      | Inr crs \<Rightarrow> UpdateCurrentCertificateRequestCount crs w)"

definition HandleCertificateRequestEvent_noreset ::
  "('ctx \<Rightarrow> error + CertificateRequest list) \<Rightarrow> 'ctx \<Rightarrow> CertificateRequest option \<Rightarrow> 'ev \<Rightarrow> 'i World \<Rightarrow> 'i World" where
  "HandleCertificateRequestEvent_noreset client ctx cr event w =
     (case getCurrentCertificateRequests client ctx of
        Inl err \<Rightarrow> w\<lparr>stdlog := stdlog w @ [Println ''Error fetching CertificateRequests:'' err]\<rparr>
      | Inr crs \<Rightarrow> UpdateCurrentCertificateRequestCount_noreset crs w)"

section \<open>Sequences of incremental calls\<close>

datatype Call =
    Increment string string string string string
  | Decrement string string string string string

fun call :: "Call \<Rightarrow> 'i World \<Rightarrow> 'i World" where
  "call (Increment nm ns issuerName issuerKind issuerGroup) w =
     IncrementCurrentCertificateRequest nm ns issuerName issuerKind issuerGroup w"
| "call (Decrement nm ns issuerName issuerKind issuerGroup) w =
     DecrementCurrentCertificateRequest nm ns issuerName issuerKind issuerGroup w"

fun calls :: "Call list \<Rightarrow> 'i World \<Rightarrow> 'i World" where
  "calls [] w = w"
| "calls (c # cs) w = calls cs (call c w)"





section \<open>Properties of the full recomputation\<close>

lemma range_crs_lookup:
  "range_crs crs v t =
     (if t \<in> set (map labels crs)
      then Some (WithLabelValues t v + int (count_list (map labels crs) t))
      else v t)"
proof (induction crs arbitrary: v)
  case Nil
  show ?case by simp
next
  case (Cons cr crs)
  show ?case
    by (simp add: Cons.IH vec_Inc_def WithLabelValues_def)
qed

lemma count_labels:
  "int (count_list (map labels crs) t) =
     int (length (filter (\<lambda>cr. t =
        [Name cr, Namespace cr, Ref_Name (IssuerRef (Spec cr)),
         Ref_Kind (IssuerRef (Spec cr)), Ref_Group (IssuerRef (Spec cr))]) crs))"
  by (induction crs) (auto simp: labels_def)

lemma carried_labels:
  "t \<in> set (map labels crs) \<longleftrightarrow>
     length (filter (\<lambda>cr. t =
        [Name cr, Namespace cr, Ref_Name (IssuerRef (Spec cr)),
         Ref_Kind (IssuerRef (Spec cr)), Ref_Group (IssuerRef (Spec cr))]) crs) \<noteq> 0"
  by (induction crs) (auto simp: labels_def)


text \<open>
  C2. For every snapshot and whatever the vector held before,
  \<open>UpdateCurrentCertificateRequestCount\<close> leaves \<open>currentCertificateRequestCount\<close>
  mapping each label tuple to the number of records of the snapshot whose name,
  namespace, issuer name, issuer kind and issuer group are that tuple, in this order,
  with no entry for a tuple that no record carries; the empty snapshot leaves the
  vector empty.
\<close>

theorem UpdateCurrentCertificateRequestCount_counts:
  "currentCertificateRequestCount (UpdateCurrentCertificateRequestCount crs w) t =
     (let k = length (filter (\<lambda>cr. t =
                 [Name cr, Namespace cr, Ref_Name (IssuerRef (Spec cr)),
                  Ref_Kind (IssuerRef (Spec cr)), Ref_Group (IssuerRef (Spec cr))]) crs)
      in if k = 0 then None else Some (int k))
   \<and> currentCertificateRequestCount (UpdateCurrentCertificateRequestCount [] w) = Map.empty"
proof -
  have "currentCertificateRequestCount (UpdateCurrentCertificateRequestCount crs w) t =
          (if t \<in> set (map labels crs) then Some (int (count_list (map labels crs) t)) else None)"
    by (simp add: UpdateCurrentCertificateRequestCount_def range_crs_lookup vec_Reset_def
        WithLabelValues_def)
  moreover have "currentCertificateRequestCount (UpdateCurrentCertificateRequestCount [] w) =
          Map.empty"
    by (simp add: UpdateCurrentCertificateRequestCount_def vec_Reset_def)
  ultimately show ?thesis
    unfolding carried_labels count_labels by (simp add: Let_def)
qed

lemma UpdateCurrentCertificateRequestCount_example:
  "currentCertificateRequestCount
     (UpdateCurrentCertificateRequestCount
        [\<lparr>Name = ''a'', Namespace = ''n'',
          Spec = \<lparr>IssuerRef = \<lparr>Ref_Name = ''i'', Ref_Kind = ''k'', Ref_Group = ''g''\<rparr>\<rparr>\<rparr>,
         \<lparr>Name = ''b'', Namespace = ''n'',
          Spec = \<lparr>IssuerRef = \<lparr>Ref_Name = ''i'', Ref_Kind = ''k'', Ref_Group = ''g''\<rparr>\<rparr>\<rparr>,
         \<lparr>Name = ''a'', Namespace = ''n'',
          Spec = \<lparr>IssuerRef = \<lparr>Ref_Name = ''i'', Ref_Kind = ''k'', Ref_Group = ''g''\<rparr>\<rparr>\<rparr>] w)
     [''a'', ''n'', ''i'', ''k'', ''g''] = Some 2"
  by (simp add: UpdateCurrentCertificateRequestCount_def vec_Reset_def vec_Inc_def
      WithLabelValues_def labels_def)

text \<open>
  C6. Calling \<open>UpdateCurrentCertificateRequestCount\<close> twice in a row with the same
  snapshot leaves the same state as calling it once.
\<close>

theorem UpdateCurrentCertificateRequestCount_idempotent:
  "UpdateCurrentCertificateRequestCount s (UpdateCurrentCertificateRequestCount s w) =
   UpdateCurrentCertificateRequestCount s w"
  by (simp add: UpdateCurrentCertificateRequestCount_def vec_Reset_def)

text \<open>
  The older version has neither property: it counts on top of what the vector holds.
\<close>

lemma UpdateCurrentCertificateRequestCount_noreset_accumulates:
  "currentCertificateRequestCount (UpdateCurrentCertificateRequestCount_noreset crs w) t =
     (if t \<in> set (map labels crs)
      then Some (WithLabelValues t (currentCertificateRequestCount w)
                 + int (count_list (map labels crs) t))
      else currentCertificateRequestCount w t)"
  by (simp add: UpdateCurrentCertificateRequestCount_noreset_def range_crs_lookup)

section \<open>Properties of the event handler\<close>

text \<open>
  C5. When the lister returns an error, \<open>HandleCertificateRequestEvent\<close> adds one error
  entry to the log and changes nothing else: the recomputation is not run, and both
  vectors keep every entry they had. This holds for both versions of the handler (the
  older one writes the entry to the standard logger).
\<close>

theorem HandleCertificateRequestEvent_lister_error:
  assumes "client ctx = Inl err"
  shows "HandleCertificateRequestEvent client ctx cr event w =
           w\<lparr>log := log w @ [Error err ''Error fetching CertificateRequests'' []]\<rparr>
       \<and> currentCertificateRequestCount (HandleCertificateRequestEvent client ctx cr event w) =
           currentCertificateRequestCount w
       \<and> certificateRequestCount (HandleCertificateRequestEvent client ctx cr event w) =
           certificateRequestCount w
       \<and> registry (HandleCertificateRequestEvent client ctx cr event w) = registry w
       \<and> HandleCertificateRequestEvent_noreset client ctx cr event w =
           w\<lparr>stdlog := stdlog w @ [Println ''Error fetching CertificateRequests:'' err]\<rparr>"
  using assms
  by (simp add: HandleCertificateRequestEvent_def HandleCertificateRequestEvent_noreset_def
      getCurrentCertificateRequests_def)

theorem HandleCertificateRequestEvent_lister_error_witness:
  "(\<lambda>u::unit. Inl (ListError ''timeout'')) () = (Inl (ListError ''timeout'') :: error + CertificateRequest list)
   \<and> currentCertificateRequestCount
       (HandleCertificateRequestEvent (\<lambda>u::unit. Inl (ListError ''timeout'')) () None ()
          \<lparr>log = [], registry = [], dimHashesByName = Map.empty,
           certificateRequestCount = Map.empty,
           clock = (\<lambda>i::nat. \<lparr>Unix = 0\<rparr>),
           currentCertificateRequestCount = [[''a'', ''n'', ''i'', ''k'', ''g''] \<mapsto> 2],
           stdlog = []\<rparr>)
       [''a'', ''n'', ''i'', ''k'', ''g''] = Some 2"
  using HandleCertificateRequestEvent_lister_error
          [of "\<lambda>u::unit. Inl (ListError ''timeout'')" "()" "ListError ''timeout''" None "()"
              "\<lparr>log = [], registry = [], dimHashesByName = Map.empty,
           certificateRequestCount = Map.empty,
           clock = (\<lambda>i::nat. \<lparr>Unix = 0\<rparr>),
           currentCertificateRequestCount = [[''a'', ''n'', ''i'', ''k'', ''g''] \<mapsto> 2],
           stdlog = []\<rparr>"]
  by simp

text \<open>
  C10. The handler never reads the changed object or the event descriptor: two calls
  with the same lister, context and state give the same state, log included, whatever
  the two arguments are. This holds for both versions of the handler.
\<close>

theorem HandleCertificateRequestEvent_ignores_cr_and_event:
  "HandleCertificateRequestEvent client ctx cr event w =
     HandleCertificateRequestEvent client ctx cr' event' w
   \<and> HandleCertificateRequestEvent_noreset client ctx cr event w =
     HandleCertificateRequestEvent_noreset client ctx cr' event' w"
  by (simp add: HandleCertificateRequestEvent_def HandleCertificateRequestEvent_noreset_def)

section \<open>Properties of the server and the clock metrics\<close>

text \<open>
  C8. For every listener and every state, the server that \<open>NewServer\<close> returns has a
  read timeout of 8 seconds and a write timeout of 8 seconds (a \<open>Duration\<close> counts
  nanoseconds) and a maximum header size of \<open>2 ^ 20\<close> bytes.
\<close>

theorem NewServer_bounds:
  "sint (ReadTimeout (fst (NewServer ln w))) = 8 * 1000000000
   \<and> sint (WriteTimeout (fst (NewServer ln w))) = 8 * 1000000000
   \<and> MaxHeaderBytes (fst (NewServer ln w)) = 2 ^ 20"
  by (simp add: NewServer_def Let_def prometheusMetricsServerReadTimeout_def
      prometheusMetricsServerWriteTimeout_def prometheusMetricsServerMaxHeaderBytes_def
      Second_def)

text \<open>
  C9. For every clock and every instant, the deprecated counter \<open>clock_time_seconds\<close>
  and the gauge \<open>clock_time_seconds_gauge\<close> expose the same value, the conversion to
  \<open>float64\<close> of the Unix time that the clock of the \<open>Metrics\<close> object reads.
\<close>

theorem clockTimeSeconds_agree:
  "clockTimeSeconds (New lg c w) i = clockTimeSecondsGauge (New lg c w) i
   \<and> clockTimeSeconds (New lg c w) i = float64 (Unix (c i))
   \<and> clockTimeSeconds w i = clockTimeSecondsGauge w i"
  by (simp add: clockTimeSeconds_def clockTimeSecondsGauge_def New_def)

lemma bit_length_le: "n < 2 ^ k \<Longrightarrow> bit_length n \<le> k"
proof (induction k arbitrary: n)
  case 0
  then show ?case by (simp add: bit_length.simps)
next
  case (Suc k)
  show ?case
  proof (cases "n = 0")
    case True
    then show ?thesis by (simp add: bit_length.simps)
  next
    case False
    have "n div 2 < 2 ^ k"
      using Suc.prems by simp
    then have "bit_length (n div 2) \<le> k"
      by (rule Suc.IH)
    with False show ?thesis
      by (subst bit_length.simps) simp
  qed
qed

text \<open>The conversion is exact on the integers that \<open>float64\<close> represents exactly.\<close>

lemma float64_exact: "\<bar>sint x\<bar> < 2 ^ 53 \<Longrightarrow> float64 x = sint x"
proof -
  assume "\<bar>sint x\<bar> < 2 ^ 53"
  then have "nat \<bar>sint x\<bar> < 2 ^ 53"
    by simp
  then have "bit_length (nat \<bar>sint x\<bar>) \<le> 53"
    by (rule bit_length_le)
  then show ?thesis
    by (simp add: float64_def Let_def)
qed

section \<open>Properties of the incremental path\<close>











section \<open>Properties of the registration loop\<close>

lemmas collector_defs =
  certificateRequestCount_collector_def clockTimeSeconds_collector_def
  clockTimeSecondsGauge_collector_def certificateExpiryTimeSeconds_collector_def
  certificateRenewalTimeSeconds_collector_def certificateReadyStatus_collector_def
  acmeClientRequestDurationSeconds_collector_def venafiClientRequestDurationSeconds_collector_def
  acmeClientRequestCount_collector_def controllerSyncCallCount_collector_def
  controllerSyncErrorCount_collector_def

lemma fqNames:
  "map (\<lambda>d. fqName (Describe d)) metricsToRegister =
     [''current_certificate_request_count'',
      ''certmanager_clock_time_seconds'',
      ''certmanager_clock_time_seconds_gauge'',
      ''certmanager_certificate_expiration_timestamp_seconds'',
      ''certmanager_certificate_renewal_timestamp_seconds'',
      ''certmanager_certificate_ready_status'',
      ''certmanager_http_acme_client_request_duration_seconds'',
      ''certmanager_http_venafi_client_request_duration_seconds'',
      ''certmanager_http_acme_client_request_count'',
      ''certmanager_controller_sync_call_count'',
      ''certmanager_controller_sync_error_count'']"
  by (simp add: metricsToRegister_def collector_defs Describe_def BuildFQName_def namespace_def)

lemma distinct_fqNames: "distinct (map (\<lambda>d. fqName (Describe d)) metricsToRegister)"
  unfolding fqNames by simp

lemma find_absent:
  "fqName (Describe c) \<notin> set (map (\<lambda>d. fqName (Describe d)) r) \<Longrightarrow>
     find (\<lambda>d. fqName (Describe d) = fqName (Describe c)) r = None"
  by (induction r) auto

lemma filter_absent:
  "fqName (Describe c) \<notin> set (map (\<lambda>d. fqName (Describe d)) r) \<Longrightarrow>
     filter (\<lambda>d. fqName (Describe d) \<noteq> fqName (Describe c)) r = r"
  by (induction r) auto

lemma fqName_filter:
  "set (map (\<lambda>d. fqName (Describe d)) (filter (\<lambda>d. fqName (Describe d) \<noteq> x) r)) =
     set (map (\<lambda>d. fqName (Describe d)) r) - {x}"
  by auto

lemma distinct_names_Cons:
  assumes "distinct (map (\<lambda>d. fqName (Describe d)) (m # ms))"
  shows "\<forall>x\<in>set ms. fqName (Describe x) \<noteq> fqName (Describe m)"
proof
  fix x
  assume "x \<in> set ms"
  then have "fqName (Describe x) \<in> set (map (\<lambda>d. fqName (Describe d)) ms)"
    by simp
  moreover have "fqName (Describe m) \<notin> set (map (\<lambda>d. fqName (Describe d)) ms)"
    using assms by simp
  ultimately show "fqName (Describe x) \<noteq> fqName (Describe m)"
    by metis
qed

text \<open>
  The three branches of one pass of the loop: a name that is not attached and that the
  registry remembers with this dimension hash or not at all is attached; an attached
  name is detached and logged as skipped; a name that is not attached but remembered
  with another dimension hash fails in \<open>Register\<close>, which is logged as an error with the
  descriptor, and the loop goes on with the registry as it was.
\<close>

lemma range_metrics_fresh:
  assumes "fqName (Describe metric) \<notin> set (map (\<lambda>d. fqName (Describe d)) (registry w))"
    and "dims_agree [metric] (dimHashesByName w)"
  shows "range_metrics (metric # rest) w =
           range_metrics rest
             (w\<lparr>log := log w @ [Info ''Registered metric''
                                  [(''name'', DescString (Describe metric))]],
                registry := registry w @ [metric],
                dimHashesByName := (dimHashesByName w)
                  (fqName (Describe metric) \<mapsto> dimHash (Describe metric))\<rparr>)"
  using assms
  by (simp add: registry_Unregister_def registry_Register_def dims_agree_def find_absent
      filter_absent split: option.splits)

lemma range_metrics_attached:
  assumes "fqName (Describe metric) \<in> set (map (\<lambda>d. fqName (Describe d)) (registry w))"
  shows "range_metrics (metric # rest) w =
           range_metrics rest
             (w\<lparr>log := log w @ [Info ''Metric already registered; skipping''
                                  [(''name'', DescString (Describe metric))]],
                registry := filter (\<lambda>d. fqName (Describe d) \<noteq> fqName (Describe metric))
                              (registry w)\<rparr>)"
  using assms by (simp add: registry_Unregister_def)

lemma range_metrics_register_fails:
  assumes "fqName (Describe metric) \<notin> set (map (\<lambda>d. fqName (Describe d)) (registry w))"
    and "dimHashesByName w (fqName (Describe metric)) = Some h"
    and "h \<noteq> dimHash (Describe metric)"
  shows "range_metrics (metric # rest) w =
           range_metrics rest
             (w\<lparr>log := log w @ [Error (InconsistentDescriptorError (Describe metric))
                                  ''Failed to register metric''
                                  [(''metric'', DescString (Describe metric))]]\<rparr>)"
  using assms
  by (simp add: registry_Unregister_def registry_Register_def filter_absent)

lemma range_metrics_attach:
  assumes "distinct (map (\<lambda>d. fqName (Describe d)) ms)"
    and "set (map (\<lambda>d. fqName (Describe d)) ms)
           \<inter> set (map (\<lambda>d. fqName (Describe d)) (registry w)) = {}"
    and "dims_agree ms (dimHashesByName w)"
  shows "registry (range_metrics ms w) = registry w @ ms"
  using assms
proof (induction ms arbitrary: w)
  case Nil
  show ?case by simp
next
  case (Cons m ms)
  have fresh: "fqName (Describe m) \<notin> set (map (\<lambda>d. fqName (Describe d)) (registry w))"
    using Cons.prems(2) by auto
  have agree: "dims_agree [m] (dimHashesByName w)"
    using Cons.prems(3) by (simp add: dims_agree_def)
  let ?w = "w\<lparr>log := log w @ [Info ''Registered metric'' [(''name'', DescString (Describe m))]],
               registry := registry w @ [m],
               dimHashesByName := (dimHashesByName w)
                 (fqName (Describe m) \<mapsto> dimHash (Describe m))\<rparr>"
  have step: "range_metrics (m # ms) w = range_metrics ms ?w"
    using fresh agree by (rule range_metrics_fresh)
  have other: "\<forall>x\<in>set ms. fqName (Describe x) \<noteq> fqName (Describe m)"
    using Cons.prems(1) by (rule distinct_names_Cons)
  have rest: "dims_agree ms (dimHashesByName ?w)"
    using Cons.prems(3) other by (simp add: dims_agree_def list_all_iff)
  have dist: "distinct (map (\<lambda>d. fqName (Describe d)) ms)"
    using Cons.prems(1) by simp
  have disj: "set (map (\<lambda>d. fqName (Describe d)) ms)
                \<inter> set (map (\<lambda>d. fqName (Describe d)) (registry ?w)) = {}"
    using Cons.prems(2) other by auto
  have "registry (range_metrics ms ?w) = registry ?w @ ms"
    using dist disj rest by (rule Cons.IH)
  with step show ?case by simp
qed

lemma range_metrics_detach:
  assumes "distinct (map (\<lambda>d. fqName (Describe d)) ms)"
    and "set (map (\<lambda>d. fqName (Describe d)) ms)
           \<subseteq> set (map (\<lambda>d. fqName (Describe d)) (registry w))"
  shows "registry (range_metrics ms w) =
           filter (\<lambda>d. fqName (Describe d) \<notin> set (map (\<lambda>d. fqName (Describe d)) ms))
             (registry w)
       \<and> dimHashesByName (range_metrics ms w) = dimHashesByName w"
  using assms
proof (induction ms arbitrary: w)
  case Nil
  show ?case by simp
next
  case (Cons m ms)
  have att: "fqName (Describe m) \<in> set (map (\<lambda>d. fqName (Describe d)) (registry w))"
    using Cons.prems(2) by simp
  let ?w = "w\<lparr>log := log w @ [Info ''Metric already registered; skipping''
                                [(''name'', DescString (Describe m))]],
               registry := filter (\<lambda>d. fqName (Describe d) \<noteq> fqName (Describe m))
                             (registry w)\<rparr>"
  have step: "range_metrics (m # ms) w = range_metrics ms ?w"
    using att by (rule range_metrics_attached)
  have reg: "registry ?w =
               filter (\<lambda>d. fqName (Describe d) \<noteq> fqName (Describe m)) (registry w)"
    by simp
  have "fqName (Describe m) \<notin> set (map (\<lambda>d. fqName (Describe d)) ms)"
    using Cons.prems(1) by simp
  moreover have "set (map (\<lambda>d. fqName (Describe d)) ms)
                   \<subseteq> set (map (\<lambda>d. fqName (Describe d)) (registry w))"
    using Cons.prems(2) by simp
  ultimately have sub: "set (map (\<lambda>d. fqName (Describe d)) ms)
                          \<subseteq> set (map (\<lambda>d. fqName (Describe d)) (registry ?w))"
    unfolding reg fqName_filter by blast
  have "registry (range_metrics ms ?w) =
          filter (\<lambda>d. fqName (Describe d) \<notin> set (map (\<lambda>d. fqName (Describe d)) ms))
            (registry ?w)
        \<and> dimHashesByName (range_metrics ms ?w) = dimHashesByName ?w"
    using Cons.prems(1) sub by (intro Cons.IH) simp_all
  with step show ?case
    by (simp add: conj_commute)
qed

lemma range_metrics_attach_dims:
  assumes "distinct (map (\<lambda>d. fqName (Describe d)) ms)"
    and "set (map (\<lambda>d. fqName (Describe d)) ms)
           \<inter> set (map (\<lambda>d. fqName (Describe d)) (registry w)) = {}"
    and "dims_agree ms (dimHashesByName w)"
    and "dims_agree ls (dimHashesByName w)"
    and "set ms \<subseteq> set ls"
    and "distinct (map (\<lambda>d. fqName (Describe d)) ls)"
  shows "dims_agree ls (dimHashesByName (range_metrics ms w))"
  using assms
proof (induction ms arbitrary: w)
  case Nil
  then show ?case by simp
next
  case (Cons m ms)
  have fresh: "fqName (Describe m) \<notin> set (map (\<lambda>d. fqName (Describe d)) (registry w))"
    using Cons.prems(2) by auto
  have agree: "dims_agree [m] (dimHashesByName w)"
    using Cons.prems(3) by (simp add: dims_agree_def)
  let ?w = "w\<lparr>log := log w @ [Info ''Registered metric'' [(''name'', DescString (Describe m))]],
               registry := registry w @ [m],
               dimHashesByName := (dimHashesByName w)
                 (fqName (Describe m) \<mapsto> dimHash (Describe m))\<rparr>"
  have step: "range_metrics (m # ms) w = range_metrics ms ?w"
    using fresh agree by (rule range_metrics_fresh)
  have other: "\<forall>x\<in>set ms. fqName (Describe x) \<noteq> fqName (Describe m)"
    using Cons.prems(1) by (rule distinct_names_Cons)
  have rest: "dims_agree ms (dimHashesByName ?w)"
    using Cons.prems(3) other by (simp add: dims_agree_def list_all_iff)
  have inj: "inj_on (\<lambda>d. fqName (Describe d)) (set ls)"
    using Cons.prems(6) by (simp add: distinct_map)
  have "m \<in> set ls"
    using Cons.prems(5) by simp
  then have all: "dims_agree ls (dimHashesByName ?w)"
    using Cons.prems(4) inj by (auto simp: dims_agree_def list_all_iff dest: inj_onD)
  have dist: "distinct (map (\<lambda>d. fqName (Describe d)) ms)"
    using Cons.prems(1) by simp
  have disj: "set (map (\<lambda>d. fqName (Describe d)) ms)
                \<inter> set (map (\<lambda>d. fqName (Describe d)) (registry ?w)) = {}"
    using Cons.prems(2) other by auto
  have sub: "set ms \<subseteq> set ls"
    using Cons.prems(5) by simp
  have "dims_agree ls (dimHashesByName (range_metrics ms ?w))"
    using dist disj rest all sub Cons.prems(6) by (rule Cons.IH)
  with step show ?case by simp
qed

lemma NewServer_attaches:
  assumes "registry w = []" and "dims_agree metricsToRegister (dimHashesByName w)"
  shows "registry (snd (NewServer ln w)) = metricsToRegister"
  using range_metrics_attach [OF distinct_fqNames, of w] assms
  by (simp add: NewServer_def Let_def)

lemma NewServer_detaches:
  "registry w = metricsToRegister \<Longrightarrow> registry (snd (NewServer ln w)) = []"
  using range_metrics_detach [of metricsToRegister w] distinct_fqNames
  by (simp add: NewServer_def Let_def)

lemma NewServer_dims_agree:
  assumes "registry w = [] \<or> registry w = metricsToRegister"
    and "dims_agree metricsToRegister (dimHashesByName w)"
  shows "dims_agree metricsToRegister (dimHashesByName (snd (NewServer ln w)))"
proof -
  from assms(1) show ?thesis
  proof
    assume "registry w = []"
    then show ?thesis
      using range_metrics_attach_dims [OF distinct_fqNames, of w metricsToRegister]
        assms(2) distinct_fqNames
      by (simp add: NewServer_def Let_def)
  next
    assume "registry w = metricsToRegister"
    then show ?thesis
      using range_metrics_detach [of metricsToRegister w] distinct_fqNames assms(2)
      by (simp add: NewServer_def Let_def)
  qed
qed

lemma NewServer_repeated_invariant:
  "registry (((\<lambda>w. snd (NewServer ln w)) ^^ n) (New lg c w)) =
     (if even n then [] else metricsToRegister)
   \<and> dims_agree metricsToRegister
       (dimHashesByName (((\<lambda>w. snd (NewServer ln w)) ^^ n) (New lg c w)))"
proof (induction n)
  case 0
  show ?case by (simp add: New_def dims_agree_def list_all_iff)
next
  case (Suc n)
  then show ?case
    by (simp add: NewServer_attaches NewServer_detaches NewServer_dims_agree)
qed

text \<open>
  C1. Repeated calls of \<open>NewServer\<close> on one \<open>Metrics\<close> do not keep one instance of each
  collector attached. A pass that finds a collector attached detaches it through
  \<open>Unregister\<close>, logs that it is skipped and does not attach it again
  (\<open>range_metrics_attached\<close>), so the registry holds every collector after an odd
  number of calls and none after an even number.
\<close>

theorem NewServer_repeated:
  "registry (((\<lambda>w. snd (NewServer ln w)) ^^ n) (New lg c w)) =
     (if even n then [] else metricsToRegister)"
  by (simp add: NewServer_repeated_invariant)

lemma range_metrics_certificateRequestCount:
  "certificateRequestCount (range_metrics ms w) = certificateRequestCount w"
  by (induction ms arbitrary: w)
    (simp_all add: registry_Unregister_def split: sum.splits prod.splits)

lemma range_metrics_currentCertificateRequestCount:
  "currentCertificateRequestCount (range_metrics ms w) = currentCertificateRequestCount w"
  by (induction ms arbitrary: w)
    (simp_all add: registry_Unregister_def split: sum.splits prod.splits)


section \<open>The two update paths together\<close>

text \<open>
  C3. After \<open>NewServer\<close> has attached the collectors of a fresh \<open>Metrics\<close>, two
  increments of the tuple make the exposition show \<open>2\<close>. A recomputation from a
  snapshot with one matching record then sets the package-level counter vector to \<open>1\<close>
  for the tuple, but the exposition of \<open>m.registry\<close> reads the gauge vector of
  \<open>Metrics\<close>, which the recomputation does not touch: it still shows \<open>2\<close>.
\<close>

theorem recompute_does_not_reach_exposition:
  "exposition_certificateRequestCount
     (IncrementCurrentCertificateRequest ''cert-a'' ''ns1'' ''issuer1'' ''ClusterIssuer'' ''cert-manager.io''
       (IncrementCurrentCertificateRequest ''cert-a'' ''ns1'' ''issuer1'' ''ClusterIssuer'' ''cert-manager.io''
         (snd (NewServer ln (New lg c w)))))
     [''cert-a'', ''ns1'', ''issuer1'', ''ClusterIssuer'', ''cert-manager.io''] = Some 2
   \<and> exposition_certificateRequestCount
     (UpdateCurrentCertificateRequestCount
        [\<lparr>Name = ''cert-a'', Namespace = ''ns1'',
          Spec = \<lparr>IssuerRef = \<lparr>Ref_Name = ''issuer1'', Ref_Kind = ''ClusterIssuer'',
                                Ref_Group = ''cert-manager.io''\<rparr>\<rparr>\<rparr>]
     (IncrementCurrentCertificateRequest ''cert-a'' ''ns1'' ''issuer1'' ''ClusterIssuer'' ''cert-manager.io''
       (IncrementCurrentCertificateRequest ''cert-a'' ''ns1'' ''issuer1'' ''ClusterIssuer'' ''cert-manager.io''
         (snd (NewServer ln (New lg c w))))))
     [''cert-a'', ''ns1'', ''issuer1'', ''ClusterIssuer'', ''cert-manager.io''] = Some 2
   \<and> currentCertificateRequestCount
     (UpdateCurrentCertificateRequestCount
        [\<lparr>Name = ''cert-a'', Namespace = ''ns1'',
          Spec = \<lparr>IssuerRef = \<lparr>Ref_Name = ''issuer1'', Ref_Kind = ''ClusterIssuer'',
                                Ref_Group = ''cert-manager.io''\<rparr>\<rparr>\<rparr>]
     (IncrementCurrentCertificateRequest ''cert-a'' ''ns1'' ''issuer1'' ''ClusterIssuer'' ''cert-manager.io''
       (IncrementCurrentCertificateRequest ''cert-a'' ''ns1'' ''issuer1'' ''ClusterIssuer'' ''cert-manager.io''
         (snd (NewServer ln (New lg c w))))))
     [''cert-a'', ''ns1'', ''issuer1'', ''ClusterIssuer'', ''cert-manager.io''] = Some 1"
proof -
  let ?w = "snd (NewServer ln (New lg c w))"
  have r: "registry ?w = metricsToRegister"
    by (rule NewServer_attaches) (simp_all add: New_def dims_agree_def list_all_iff)
  have v: "certificateRequestCount ?w = Map.empty"
    by (simp add: NewServer_def Let_def range_metrics_certificateRequestCount New_def)
  have m: "certificateRequestCount_collector \<in> set metricsToRegister"
    by (simp add: metricsToRegister_def)
  show ?thesis
    by (simp add: exposition_certificateRequestCount_def
        IncrementCurrentCertificateRequest_def UpdateCurrentCertificateRequestCount_def
        r v m vec_Inc_def vec_Reset_def WithLabelValues_def labels_def)
qed

end
